theory Spec2Isabelle
  imports Main
begin

section \<open>Data model of \<open>api/download.go\<close>\<close>

text \<open>
  The handlers of \<open>api/download.go\<close> work on three tables of the relational store
  (orders, downloads and the event ledger) and on the request context. The rows keep
  the fields the handlers read or write; strings stay strings (\<open>order.PaymentState\<close> is
  compared with the constant \<open>models.PaidState\<close>, the column with the literal
  \<open>'paid'\<close>), instants are nanoseconds on the integer line, and the counters
  (\<open>download_count\<close>, the \<open>uint64\<close> that receives \<open>count(distinct(ip))\<close>) are natural
  numbers: both stay far below \<open>2 ^ 63\<close>, the range of the column they are read from.
\<close>

type_synonym time = int

record Order =
  order_ID :: string
  order_UserID :: string
  order_PaymentState :: string

record Download =
  download_ID :: string
  download_OrderID :: string
  download_Asset :: string
  download_DownloadCount :: nat
  download_Signed :: "(string \<times> time) option"

text \<open>
  An event row. The \<open>changes\<close> column holds the change tags that \<open>models.LogEvent\<close> was
  given (\<open>[]string{"download"}\<close> at line 76); the identity of the row is generated by the
  store and read by no handler, so it is left out.
\<close>

record Event =
  event_IP :: string
  event_UserID :: string
  event_OrderID :: string
  event_Type :: string
  event_Changes :: "string list"
  event_CreatedAt :: time

record store =
  orders :: "Order list"
  downloads :: "Download list"
  events :: "Event list"

record JWTClaims =
  Subject :: string

text \<open>
  What a handler reads from \<open>r\<close> and its context: the route parameter \<open>download_id\<close>,
  \<open>gcontext.GetOrderID\<close>, \<open>gcontext.GetClaims\<close> (a pointer, \<open>None\<close> for \<open>nil\<close>), the
  administrative capability, \<open>r.RemoteAddr\<close> and the two pagination parameters.
\<close>

record request =
  req_download_id :: string
  req_order_id :: string
  req_claims :: "JWTClaims option"
  req_is_admin :: bool
  req_RemoteAddr :: string
  req_offset :: int
  req_limit :: int

text \<open>
  What the handler does not control: the clock, whether each store operation reports an
  error, the signing capability of the asset store (\<open>None\<close> when it fails), whether the
  transaction commits, and the bound of the pagination parameters.
\<close>

record env =
  now :: time
  download_query_error :: bool
  order_query_error :: bool
  count_query_error :: bool
  count_scan_error :: bool
  list_query_error :: bool
  signer :: "string \<Rightarrow> (string \<times> time) option"
  commit_ok :: bool
  pagination_bound :: int

datatype error =
    notFoundError string
  | unauthorizedError string
  | badRequestError string
  | internalServerError string
  | nilPointerPanic

text \<open>The operations a handler performs on the store and on the signing capability.\<close>

datatype call =
    QueryDownload
  | QueryOrder
  | QueryIPCount
  | SignCall
  | TxBegin
  | TxUpdate
  | TxLogEvent
  | TxCommit
  | QueryDownloads

datatype 'a query_result = Found 'a | RecordNotFound | QueryError

text \<open>
  The run of a handler: what it returns (the error, or the value given to \<open>sendJSON\<close>),
  the store it leaves, and the operations it performed, in order.
\<close>

record 'a outcome =
  response :: "error + 'a"
  store_after :: store
  calls :: "call list"

section \<open>Constants and store operations\<close>

definition maxIPsPerDay :: nat where
  "maxIPsPerDay = 50"

definition PaidState :: string where
  "PaidState = ''paid''"

definition EventUpdated :: string where
  "EventUpdated = ''updated''"

definition Hour :: int where
  "Hour = 3600 * 1000000000"

text \<open>\<open>db.Where("id = ?", downloadID).First(download)\<close>\<close>

definition first_download :: "env \<Rightarrow> store \<Rightarrow> string \<Rightarrow> Download query_result" where
  "first_download e s i =
     (if download_query_error e then QueryError
      else case find (\<lambda>d. download_ID d = i) (downloads s) of
             None \<Rightarrow> RecordNotFound
           | Some d \<Rightarrow> Found d)"

text \<open>\<open>db.Where("id = ?", download.OrderID).First(order)\<close>\<close>

definition first_order :: "env \<Rightarrow> store \<Rightarrow> string \<Rightarrow> Order query_result" where
  "first_order e s i =
     (if order_query_error e then QueryError
      else case find (\<lambda>ord. order_ID ord = i) (orders s) of
             None \<Rightarrow> RecordNotFound
           | Some ord \<Rightarrow> Found ord)"

text \<open>
  The \<open>Where\<close> clause of lines 48 to 51:
  \<open>order_id = ? and created_at > ? and changes = 'download'\<close>. The third conjunct is an
  equality on the column, which the row written for the single tag \<open>download\<close> satisfies.
\<close>

definition download_event :: "string \<Rightarrow> time \<Rightarrow> Event \<Rightarrow> bool" where
  "download_event oid since ev \<longleftrightarrow>
     event_OrderID ev = oid \<and> event_CreatedAt ev > since \<and> event_Changes ev = [''download'']"

text \<open>\<open>Select("count(distinct(ip))")\<close> over these rows.\<close>

definition count_distinct_ip :: "store \<Rightarrow> string \<Rightarrow> time \<Rightarrow> nat" where
  "count_distinct_ip s oid since =
     length (remdups (map event_IP (filter (download_event oid since) (events s))))"

text \<open>\<open>Rows()\<close>: an error, or the rows of the aggregate query (one row).\<close>

definition count_rows :: "env \<Rightarrow> store \<Rightarrow> string \<Rightarrow> time \<Rightarrow> nat list option" where
  "count_rows e s oid since =
     (if count_query_error e then None else Some [count_distinct_ip s oid since])"

text \<open>The loop \<open>for rows.Next() { err = rows.Scan(&count) ... }\<close>; \<open>None\<close> is the early return.\<close>

fun scan_rows :: "env \<Rightarrow> nat list \<Rightarrow> nat \<Rightarrow> nat option" where
  "scan_rows e [] count = Some count"
| "scan_rows e (row # rows) count =
     (if count_scan_error e then None else scan_rows e rows row)"

text \<open>
  Lines 48 to 61: the query since \<open>time.Now().Add(-24*time.Hour)\<close>, then the loop over its
  rows with \<open>count\<close> starting at zero. \<open>None\<close> is either internal error.
\<close>

definition access_count :: "env \<Rightarrow> store \<Rightarrow> string \<Rightarrow> nat option" where
  "access_count e s oid =
     (case count_rows e s oid (now e + (- 24 * Hour)) of
        None \<Rightarrow> None
      | Some rows \<Rightarrow> scan_rows e rows 0)"

text \<open>
  Modelled from the spec: \<open>hasOrderAccess\<close> is not in \<open>api/download.go\<close>. Section 4.1,
  CheckOwnership: true if the caller is the order's owner or holds an administrative
  capability, false otherwise, no side effects.
\<close>

definition hasOrderAccess :: "request \<Rightarrow> Order \<Rightarrow> bool" where
  "hasOrderAccess r ord \<longleftrightarrow>
     (case req_claims r of None \<Rightarrow> False | Some c \<Rightarrow> Subject c = order_UserID ord)
     \<or> req_is_admin r"

text \<open>
  Modelled from the spec: \<open>Download.SignURL\<close> is not in \<open>api/download.go\<close>. Section 4.3:
  the capability maps the asset reference to a URL and its expiry, or fails; the
  download then carries them.
\<close>

definition SignURL :: "env \<Rightarrow> Download \<Rightarrow> Download option" where
  "SignURL e d =
     (case signer e (download_Asset d) of
        None \<Rightarrow> None
      | Some su \<Rightarrow> Some (d\<lparr>download_Signed := Some su\<rparr>))"

text \<open>
  \<open>tx.Model(download).Updates(... gorm.Expr("download_count + 1"))\<close>: the increment is
  computed by the store on the row of this download; the struct in memory, which is what
  \<open>sendJSON\<close> is given, keeps the count it was loaded with.
\<close>

definition increment_download_count :: "string \<Rightarrow> Download list \<Rightarrow> Download list" where
  "increment_download_count i ds =
     map (\<lambda>d. if download_ID d = i
              then d\<lparr>download_DownloadCount := download_DownloadCount d + 1\<rparr>
              else d) ds"

text \<open>
  Modelled from the spec: \<open>models.LogEvent\<close> is not in \<open>api/download.go\<close>. Section 4.4:
  it appends one event for the order with the given kind, change tags, actor and
  address, stamped now.
\<close>

definition LogEvent ::
  "env \<Rightarrow> Event list \<Rightarrow> string \<Rightarrow> string \<Rightarrow> string \<Rightarrow> string \<Rightarrow> string list \<Rightarrow> Event list" where
  "LogEvent e led ip user oid typ changes =
     led @ [\<lparr>event_IP = ip, event_UserID = user, event_OrderID = oid, event_Type = typ,
             event_Changes = changes, event_CreatedAt = now e\<rparr>]"

text \<open>
  Lines 70 to 77. The results of \<open>Begin\<close>, \<open>Updates\<close>, \<open>LogEvent\<close> and \<open>Commit\<close> are
  discarded by the handler; the store makes both writes visible when the transaction
  commits and none of them when it does not.
\<close>

definition record_access :: "env \<Rightarrow> request \<Rightarrow> store \<Rightarrow> Download \<Rightarrow> Order \<Rightarrow> store" where
  "record_access e r s download ord =
     (let subject = (case req_claims r of None \<Rightarrow> [] | Some c \<Rightarrow> Subject c)
      in if commit_ok e
         then s\<lparr>downloads := increment_download_count (download_ID download) (downloads s),
                events := LogEvent e (events s) (req_RemoteAddr r) subject (order_ID ord)
                            EventUpdated [''download'']\<rparr>
         else s)"

section \<open>\<open>DownloadURL\<close>\<close>

definition fail :: "error \<Rightarrow> store \<Rightarrow> call list \<Rightarrow> 'a outcome" where
  "fail err s cs = \<lparr>response = Inl err, store_after = s, calls = cs\<rparr>"

definition DownloadURL :: "env \<Rightarrow> request \<Rightarrow> store \<Rightarrow> Download outcome" where
  "DownloadURL e r s =
     (case first_download e s (req_download_id r) of
        RecordNotFound \<Rightarrow> fail (notFoundError ''Download not found'') s [QueryDownload]
      | QueryError \<Rightarrow>
          fail (internalServerError ''Error during database query'') s [QueryDownload]
      | Found download \<Rightarrow>
     (case first_order e s (download_OrderID download) of
        RecordNotFound \<Rightarrow>
          fail (notFoundError ''Download order not found'') s [QueryDownload, QueryOrder]
      | QueryError \<Rightarrow>
          fail (internalServerError ''Error during database query'') s
            [QueryDownload, QueryOrder]
      | Found ord \<Rightarrow>
     if \<not> hasOrderAccess r ord then
       fail (unauthorizedError ''Not Authorized to access this download'') s
         [QueryDownload, QueryOrder]
     else if order_PaymentState ord \<noteq> PaidState then
       fail (unauthorizedError ''This download has not been paid yet'') s
         [QueryDownload, QueryOrder]
     else
     (case access_count e s (order_ID ord) of
        None \<Rightarrow>
          fail (internalServerError ''Error signing download'') s
            [QueryDownload, QueryOrder, QueryIPCount]
      | Some count \<Rightarrow>
     if count > maxIPsPerDay then
       fail (unauthorizedError
               ''This download has been accessed from too many IPs within the last day'') s
         [QueryDownload, QueryOrder, QueryIPCount]
     else
     (case SignURL e download of
        None \<Rightarrow>
          fail (internalServerError ''Error signing download'') s
            [QueryDownload, QueryOrder, QueryIPCount, SignCall]
      | Some signed \<Rightarrow>
          \<lparr>response = Inr signed,
           store_after = record_access e r s signed ord,
           calls = [QueryDownload, QueryOrder, QueryIPCount, SignCall,
                    TxBegin, TxUpdate, TxLogEvent, TxCommit]\<rparr>))))"

section \<open>\<open>DownloadList\<close>\<close>

text \<open>
  Modelled from the spec: \<open>paginate\<close> is not in \<open>api/download.go\<close>. Section 4.6: offset
  and limit are caller-supplied and validated as non-negative and bounded; invalid values
  fail (\<open>None\<close>), valid ones are returned. Section 8: an invalid value fails without
  touching the store.
\<close>

definition paginate :: "env \<Rightarrow> request \<Rightarrow> (int \<times> int) option" where
  "paginate e r =
     (if req_offset r < 0 \<or> req_limit r < 0
         \<or> pagination_bound e < req_offset r \<or> pagination_bound e < req_limit r
      then None
      else Some (req_offset r, req_limit r))"

text \<open>
  The query of line 114 with the \<open>Where\<close> of line 116 or 119: downloads joined with the
  orders of their \<open>order_id\<close> whose \<open>payment_state\<close> is \<open>'paid'\<close> and that are in scope; one
  row for each pair.
\<close>

definition joined_downloads :: "store \<Rightarrow> (Order \<Rightarrow> bool) \<Rightarrow> Download list" where
  "joined_downloads s scope =
     concat (map (\<lambda>d. map (\<lambda>ord. d)
                         (filter (\<lambda>ord. download_OrderID d = order_ID ord
                                         \<and> order_PaymentState ord = ''paid'' \<and> scope ord)
                                 (orders s)))
                 (downloads s))"

text \<open>
  Lines 111 to 133, with the order already loaded and checked (\<open>None\<close> for \<open>order = nil\<close>).
  Without an order, \<open>claims.Subject\<close> is read through the pointer that
  \<open>gcontext.GetClaims\<close> returned. The text of the pagination error, formatted into the
  message with \<open>%v\<close>, is left out.
\<close>

definition list_page ::
  "env \<Rightarrow> request \<Rightarrow> store \<Rightarrow> Order option \<Rightarrow> call list \<Rightarrow> Download list outcome" where
  "list_page e r s order_opt cs =
     (case (case order_opt of
              Some ord \<Rightarrow> Some (\<lambda>row. order_ID row = order_ID ord)
            | None \<Rightarrow> (case req_claims r of
                         None \<Rightarrow> None
                       | Some claims \<Rightarrow> Some (\<lambda>row. order_UserID row = Subject claims))) of
        None \<Rightarrow> fail nilPointerPanic s cs
      | Some scope \<Rightarrow>
     (case paginate e r of
        None \<Rightarrow> fail (badRequestError ''Bad Pagination Parameters'') s cs
      | Some (offset, limit) \<Rightarrow>
          if list_query_error e then
            fail (internalServerError ''Error during database query'') s
              (cs @ [QueryDownloads])
          else
            \<lparr>response = Inr (take (nat limit) (drop (nat offset) (joined_downloads s scope))),
             store_after = s,
             calls = cs @ [QueryDownloads]\<rparr>))"

definition DownloadList :: "env \<Rightarrow> request \<Rightarrow> store \<Rightarrow> Download list outcome" where
  "DownloadList e r s =
     (if req_order_id r \<noteq> [] then
        (case first_order e s (req_order_id r) of
           RecordNotFound \<Rightarrow> fail (notFoundError ''Download order not found'') s [QueryOrder]
         | QueryError \<Rightarrow>
             fail (internalServerError ''Error during database query'') s [QueryOrder]
         | Found ord \<Rightarrow>
             if \<not> hasOrderAccess r ord then
               fail (unauthorizedError ''You don't have permission to access this order'') s
                 [QueryOrder]
             else if order_PaymentState ord \<noteq> PaidState then
               fail (unauthorizedError ''This order has not been completed yet'') s
                 [QueryOrder]
             else list_page e r s (Some ord) [QueryOrder])
      else list_page e r s None [])"

section \<open>The rate limiter as the specification words it\<close>

text \<open>
  Section 4.2, CountDistinctAccessIPs: the distinct source addresses among the ledger
  entries of the order whose change-tag set contains \<open>download\<close> and whose timestamp lies
  in the half-open interval from \<open>now - 24h\<close> (excluded) to \<open>now\<close> (included).
\<close>

definition spec_CountDistinctAccessIPs :: "store \<Rightarrow> string \<Rightarrow> time \<Rightarrow> nat" where
  "spec_CountDistinctAccessIPs s oid t =
     length (remdups (map event_IP
       (filter (\<lambda>ev. event_OrderID ev = oid \<and> ''download'' \<in> set (event_Changes ev)
                     \<and> t - 24 * Hour < event_CreatedAt ev \<and> event_CreatedAt ev \<le> t)
               (events s))))"

section \<open>A shop with two orders\<close>

text \<open>
  Order \<open>O1\<close> of user \<open>alice\<close> is paid and owns download \<open>D1\<close>; order \<open>O2\<close> of user \<open>bob\<close>
  is not paid and owns download \<open>D2\<close>. The ledger is empty.
\<close>

definition O1 :: Order where
  "O1 = \<lparr>order_ID = ''O1'', order_UserID = ''alice'', order_PaymentState = ''paid''\<rparr>"

definition O2 :: Order where
  "O2 = \<lparr>order_ID = ''O2'', order_UserID = ''bob'', order_PaymentState = ''pending''\<rparr>"

definition D1 :: Download where
  "D1 = \<lparr>download_ID = ''D1'', download_OrderID = ''O1'', download_Asset = ''book.pdf'',
          download_DownloadCount = 0, download_Signed = None\<rparr>"

definition D2 :: Download where
  "D2 = \<lparr>download_ID = ''D2'', download_OrderID = ''O2'', download_Asset = ''song.mp3'',
          download_DownloadCount = 0, download_Signed = None\<rparr>"

definition shop :: store where
  "shop = \<lparr>orders = [O1, O2], downloads = [D1, D2], events = []\<rparr>"

definition clock :: time where
  "clock = 1000 * Hour"

definition calm :: env where
  "calm =
     \<lparr>now = clock, download_query_error = False, order_query_error = False,
      count_query_error = False, count_scan_error = False, list_query_error = False,
      signer = (\<lambda>asset. Some (''https://cdn/'' @ asset @ ''?sig=1'', clock + Hour)),
      commit_ok = True, pagination_bound = 100\<rparr>"

definition caller :: "string \<Rightarrow> string \<Rightarrow> request" where
  "caller user did =
     \<lparr>req_download_id = did, req_order_id = [], req_claims = Some \<lparr>Subject = user\<rparr>,
      req_is_admin = False, req_RemoteAddr = ''203.0.113.7'', req_offset = 0, req_limit = 10\<rparr>"

definition anonymous :: "string \<Rightarrow> request" where
  "anonymous did =
     \<lparr>req_download_id = did, req_order_id = [], req_claims = None,
      req_is_admin = False, req_RemoteAddr = ''203.0.113.7'', req_offset = 0, req_limit = 10\<rparr>"

text \<open>A ledger entry as line 76 writes it, for order \<open>oid\<close> from address \<open>ip\<close> at instant \<open>t\<close>.\<close>

definition access_event :: "string \<Rightarrow> time \<Rightarrow> string \<Rightarrow> Event" where
  "access_event oid t ip =
     \<lparr>event_IP = ip, event_UserID = [], event_OrderID = oid, event_Type = EventUpdated,
      event_Changes = [''download''], event_CreatedAt = t\<rparr>"

text \<open>Fifty-one source addresses, and the shop after the first \<open>n\<close> of them fetched \<open>D1\<close>.\<close>

definition visitors :: "string list" where
  "visitors =
    [''198.51.100.1'', ''198.51.100.2'', ''198.51.100.3'', ''198.51.100.4'',
     ''198.51.100.5'', ''198.51.100.6'', ''198.51.100.7'', ''198.51.100.8'',
     ''198.51.100.9'', ''198.51.100.10'', ''198.51.100.11'', ''198.51.100.12'',
     ''198.51.100.13'', ''198.51.100.14'', ''198.51.100.15'', ''198.51.100.16'',
     ''198.51.100.17'', ''198.51.100.18'', ''198.51.100.19'', ''198.51.100.20'',
     ''198.51.100.21'', ''198.51.100.22'', ''198.51.100.23'', ''198.51.100.24'',
     ''198.51.100.25'', ''198.51.100.26'', ''198.51.100.27'', ''198.51.100.28'',
     ''198.51.100.29'', ''198.51.100.30'', ''198.51.100.31'', ''198.51.100.32'',
     ''198.51.100.33'', ''198.51.100.34'', ''198.51.100.35'', ''198.51.100.36'',
     ''198.51.100.37'', ''198.51.100.38'', ''198.51.100.39'', ''198.51.100.40'',
     ''198.51.100.41'', ''198.51.100.42'', ''198.51.100.43'', ''198.51.100.44'',
     ''198.51.100.45'', ''198.51.100.46'', ''198.51.100.47'', ''198.51.100.48'',
     ''198.51.100.49'', ''198.51.100.50'', ''198.51.100.51'']"

definition crowd :: "nat \<Rightarrow> store" where
  "crowd n = shop\<lparr>events := map (access_event ''O1'' clock) (take n visitors)\<rparr>"

section \<open>Facts about the store operations and the example shop\<close>

lemmas shop_defs = shop_def O1_def O2_def D1_def D2_def calm_def clock_def caller_def
  anonymous_def

lemma first_download_shop:
  "first_download calm shop ''D1'' = Found D1" "first_download calm shop ''D2'' = Found D2"
  by (simp_all add: first_download_def shop_defs)

lemma first_order_shop:
  "first_order calm shop ''O1'' = Found O1" "first_order calm shop ''O2'' = Found O2"
  by (simp_all add: first_order_def shop_defs)

lemma access_count_eq:
  "access_count e s oid =
     (if count_query_error e \<or> count_scan_error e then None
      else Some (count_distinct_ip s oid (now e - 24 * Hour)))"
  by (simp add: access_count_def count_rows_def)

section \<open>Entitlement\<close>

text \<open>
  Claim C2. When the download and its order are found and the order's payment state is
  not \<open>paid\<close>, \<open>DownloadURL\<close> fails with an Unauthorized error for every caller: the caller
  with access to the order is told that the download has not been paid, every other
  caller that it is not authorized; the kind of the failure is the same.
\<close>

theorem unpaid_order_unauthorized:
  assumes "first_download e s (req_download_id r) = Found d"
    and "first_order e s (download_OrderID d) = Found ord"
    and "order_PaymentState ord \<noteq> PaidState"
  shows "response (DownloadURL e r s) =
           Inl (unauthorizedError (if hasOrderAccess r ord
                                   then ''This download has not been paid yet''
                                   else ''Not Authorized to access this download''))"
  using assms by (simp add: DownloadURL_def fail_def)

theorem unpaid_order_unauthorized_witness:
  "first_download calm shop (req_download_id (caller ''bob'' ''D2'')) = Found D2
   \<and> first_order calm shop (download_OrderID D2) = Found O2
   \<and> order_PaymentState O2 \<noteq> PaidState
   \<and> hasOrderAccess (caller ''bob'' ''D2'') O2
   \<and> response (DownloadURL calm (caller ''bob'' ''D2'') shop) =
       Inl (unauthorizedError ''This download has not been paid yet'')"
proof -
  have h1: "first_download calm shop (req_download_id (caller ''bob'' ''D2'')) = Found D2"
    by (simp add: caller_def first_download_shop)
  have h2: "first_order calm shop (download_OrderID D2) = Found O2"
    by (simp add: D2_def first_order_shop)
  have h3: "order_PaymentState O2 \<noteq> PaidState"
    by (simp add: O2_def PaidState_def)
  have h4: "hasOrderAccess (caller ''bob'' ''D2'') O2"
    by (simp add: hasOrderAccess_def caller_def O2_def)
  from unpaid_order_unauthorized [OF h1 h2 h3] h1 h2 h3 h4 show ?thesis by simp
qed

text \<open>
  Claim C3. When the download and its order are found and the caller is neither the
  owner of the order (no claims, or claims of another subject) nor an administrator,
  \<open>DownloadURL\<close> fails with an Unauthorized error, whatever the payment state.
\<close>

theorem stranger_unauthorized:
  assumes "first_download e s (req_download_id r) = Found d"
    and "first_order e s (download_OrderID d) = Found ord"
    and "\<not> req_is_admin r"
    and "\<forall>c. req_claims r = Some c \<longrightarrow> Subject c \<noteq> order_UserID ord"
  shows "response (DownloadURL e r s) =
           Inl (unauthorizedError ''Not Authorized to access this download'')"
proof -
  from assms(3,4) have "\<not> hasOrderAccess r ord"
    by (auto simp: hasOrderAccess_def split: option.splits)
  with assms(1,2) show ?thesis
    by (simp add: DownloadURL_def fail_def)
qed

theorem stranger_unauthorized_witness:
  "first_download calm shop (req_download_id (caller ''bob'' ''D1'')) = Found D1
   \<and> first_order calm shop (download_OrderID D1) = Found O1
   \<and> \<not> req_is_admin (caller ''bob'' ''D1'')
   \<and> req_claims (caller ''bob'' ''D1'') = Some \<lparr>Subject = ''bob''\<rparr>
   \<and> order_UserID O1 = ''alice''
   \<and> order_PaymentState O1 = PaidState
   \<and> response (DownloadURL calm (caller ''bob'' ''D1'') shop) =
       Inl (unauthorizedError ''Not Authorized to access this download'')"
proof -
  have h1: "first_download calm shop (req_download_id (caller ''bob'' ''D1'')) = Found D1"
    by (simp add: caller_def first_download_shop)
  have h2: "first_order calm shop (download_OrderID D1) = Found O1"
    by (simp add: D1_def first_order_shop)
  have h3: "\<not> req_is_admin (caller ''bob'' ''D1'')"
    by (simp add: caller_def)
  have h4: "\<forall>c. req_claims (caller ''bob'' ''D1'') = Some c \<longrightarrow> Subject c \<noteq> order_UserID O1"
    by (auto simp: caller_def O1_def)
  have h5: "order_PaymentState O1 = PaidState"
    by (simp add: O1_def PaidState_def)
  have h6: "req_claims (caller ''bob'' ''D1'') = Some \<lparr>Subject = ''bob''\<rparr>"
    by (simp add: caller_def)
  have h7: "order_UserID O1 = ''alice''"
    by (simp add: O1_def)
  from stranger_unauthorized [OF h1 h2 h3 h4] h1 h2 h3 h5 h6 h7 show ?thesis by simp
qed

section \<open>Failures leave the store alone\<close>

text \<open>
  Claim C7. When \<open>DownloadURL\<close> ends with a NotFound or an Unauthorized failure (missing
  download or order, no access, unpaid order, too many addresses), the store it leaves
  is the store it found, so no \<open>download_count\<close> and no ledger entry has changed, and no
  step of the transaction was performed.
\<close>

theorem failure_leaves_store:
  assumes "response (DownloadURL e r s) = Inl (notFoundError m)
           \<or> response (DownloadURL e r s) = Inl (unauthorizedError m)"
  shows "store_after (DownloadURL e r s) = s
         \<and> set (calls (DownloadURL e r s)) \<inter> {TxBegin, TxUpdate, TxLogEvent, TxCommit} = {}"
  using assms
  by (auto simp: DownloadURL_def fail_def split: query_result.splits option.splits if_splits)

theorem failure_leaves_store_witness:
  "response (DownloadURL calm (caller ''alice'' ''D2'') shop) =
     Inl (unauthorizedError ''Not Authorized to access this download'')
   \<and> store_after (DownloadURL calm (caller ''alice'' ''D2'') shop) = shop
   \<and> downloads (store_after (DownloadURL calm (caller ''alice'' ''D2'') shop)) = [D1, D2]
   \<and> events (store_after (DownloadURL calm (caller ''alice'' ''D2'') shop)) = []"
proof -
  have h: "response (DownloadURL calm (caller ''alice'' ''D2'') shop) =
             Inl (unauthorizedError ''Not Authorized to access this download'')"
    by (simp add: DownloadURL_def fail_def first_download_shop first_order_shop
          hasOrderAccess_def caller_def D2_def O2_def)
  from failure_leaves_store [of calm "caller ''alice'' ''D2''" shop
      "''Not Authorized to access this download''"] h
  have "store_after (DownloadURL calm (caller ''alice'' ''D2'') shop) = shop"
    by simp
  with h show ?thesis by (simp add: shop_def)
qed

section \<open>The rate limiter\<close>

lemma first_download_events:
  "first_download e (s\<lparr>events := led\<rparr>) i = first_download e s i"
  by (simp add: first_download_def)

lemma first_order_events:
  "first_order e (s\<lparr>events := led\<rparr>) i = first_order e s i"
  by (simp add: first_order_def)

lemma distinct_visitors: "distinct visitors"
  by (simp add: visitors_def)

lemma length_visitors: "length visitors = 51"
  by (simp add: visitors_def)

lemma count_access_events:
  assumes "distinct ips" and "since < t"
  shows "count_distinct_ip (s\<lparr>events := map (access_event oid t) ips\<rparr>) oid since = length ips"
proof -
  have "filter (download_event oid since) (map (access_event oid t) ips)
          = map (access_event oid t) ips"
    using assms(2) by (simp add: download_event_def access_event_def filter_map o_def)
  moreover have "map event_IP (map (access_event oid t) ips) = ips"
    by (simp add: access_event_def o_def)
  ultimately show ?thesis
    using assms(1) by (simp add: count_distinct_ip_def)
qed

lemma access_count_crowd:
  assumes "n \<le> 51"
  shows "access_count calm (crowd n) ''O1'' = Some n"
proof -
  have "count_distinct_ip (crowd n) ''O1'' (clock - 24 * Hour) = length (take n visitors)"
    unfolding crowd_def
    by (rule count_access_events) (simp_all add: distinct_visitors Hour_def)
  with assms show ?thesis
    by (simp add: access_count_eq calm_def length_visitors)
qed

text \<open>
  Claim C4. Once the download and its order are found, the caller has access, the order
  is paid and the count query has answered \<open>n\<close>, \<open>DownloadURL\<close> fails with an
  Unauthorized error exactly when \<open>n\<close> is greater than 50, and reaches the signer exactly
  when \<open>n\<close> is at most 50: a count of 50 is admitted, a count of 51 is denied.
\<close>

theorem rate_limit_threshold:
  assumes "first_download e s (req_download_id r) = Found d"
    and "first_order e s (download_OrderID d) = Found ord"
    and "hasOrderAccess r ord"
    and "order_PaymentState ord = PaidState"
    and "access_count e s (order_ID ord) = Some n"
  shows "((\<exists>m. response (DownloadURL e r s) = Inl (unauthorizedError m)) \<longleftrightarrow> 50 < n)
       \<and> (SignCall \<in> set (calls (DownloadURL e r s)) \<longleftrightarrow> n \<le> 50)"
  using assms
  by (auto simp: DownloadURL_def fail_def maxIPsPerDay_def split: option.splits)

theorem rate_limit_threshold_witness:
  "access_count calm (crowd 50) (order_ID O1) = Some 50
   \<and> SignCall \<in> set (calls (DownloadURL calm (caller ''alice'' ''D1'') (crowd 50)))
   \<and> (\<nexists>m. response (DownloadURL calm (caller ''alice'' ''D1'') (crowd 50))
             = Inl (unauthorizedError m))
   \<and> access_count calm (crowd 51) (order_ID O1) = Some 51
   \<and> SignCall \<notin> set (calls (DownloadURL calm (caller ''alice'' ''D1'') (crowd 51)))
   \<and> (\<exists>m. response (DownloadURL calm (caller ''alice'' ''D1'') (crowd 51))
             = Inl (unauthorizedError m))"
proof -
  have h1: "first_download calm (crowd n) (req_download_id (caller ''alice'' ''D1'')) = Found D1"
    for n
    by (simp add: crowd_def first_download_events first_download_shop caller_def)
  have h2: "first_order calm (crowd n) (download_OrderID D1) = Found O1" for n
    by (simp add: crowd_def first_order_events first_order_shop D1_def)
  have h3: "hasOrderAccess (caller ''alice'' ''D1'') O1"
    by (simp add: hasOrderAccess_def caller_def O1_def)
  have h4: "order_PaymentState O1 = PaidState"
    by (simp add: O1_def PaidState_def)
  have c50: "access_count calm (crowd 50) (order_ID O1) = Some 50"
    using access_count_crowd [of 50] by (simp add: O1_def)
  have c51: "access_count calm (crowd 51) (order_ID O1) = Some 51"
    using access_count_crowd [of 51] by (simp add: O1_def)
  from rate_limit_threshold [OF h1 h2 h3 h4 c50] rate_limit_threshold [OF h1 h2 h3 h4 c51]
    c50 c51
  show ?thesis by simp
qed

text \<open>
  Claim C5, as the specification words it, fails on the query of lines 48 to 51 in two
  ways. The query has no upper end of the window: an entry stamped after \<open>now\<close> is
  counted. And it compares the whole \<open>changes\<close> column with \<open>'download'\<close>: an entry
  whose tags contain \<open>download\<close> beside another tag is not counted.
\<close>

theorem count_window_and_tags_counterexample:
  "access_count calm (shop\<lparr>events := [access_event ''O1'' (clock + 1) ''203.0.113.7'']\<rparr>) ''O1''
     = Some 1
   \<and> spec_CountDistinctAccessIPs
       (shop\<lparr>events := [access_event ''O1'' (clock + 1) ''203.0.113.7'']\<rparr>) ''O1'' (now calm)
     = 0
   \<and> access_count calm
       (shop\<lparr>events := [(access_event ''O1'' clock ''203.0.113.7'')
                           \<lparr>event_Changes := [''download'', ''refund'']\<rparr>]\<rparr>) ''O1''
     = Some 0
   \<and> spec_CountDistinctAccessIPs
       (shop\<lparr>events := [(access_event ''O1'' clock ''203.0.113.7'')
                           \<lparr>event_Changes := [''download'', ''refund'']\<rparr>]\<rparr>) ''O1'' (now calm)
     = 1"
  by (simp add: access_count_eq count_distinct_ip_def download_event_def
        spec_CountDistinctAccessIPs_def access_event_def calm_def clock_def Hour_def)

text \<open>
  Claim C5, amended. The count that \<open>DownloadURL\<close> compares with the limit is the number
  of distinct source addresses among the ledger entries of the order whose change tags
  are exactly the single tag \<open>download\<close> and whose timestamp is later than
  \<open>now - 24h\<close>. So an entry stamped exactly \<open>now - 24h\<close> is excluded, and entries without
  the tag \<open>download\<close> or of another order are never counted.
\<close>

theorem distinct_ip_count_meaning:
  "access_count e s oid =
     (if count_query_error e \<or> count_scan_error e then None
      else Some (card (event_IP ` {ev \<in> set (events s).
                   event_OrderID ev = oid \<and> event_Changes ev = [''download'']
                   \<and> now e - 24 * Hour < event_CreatedAt ev})))"
proof -
  have "{ev \<in> set (events s). event_OrderID ev = oid \<and> event_Changes ev = [''download'']
            \<and> now e - 24 * Hour < event_CreatedAt ev}
        = set (filter (download_event oid (now e - 24 * Hour)) (events s))"
    by (auto simp: download_event_def)
  then show ?thesis
    by (simp add: access_count_eq count_distinct_ip_def length_remdups_card_conv)
qed

section \<open>Order of the pipeline\<close>

text \<open>
  Claim C6. In every run of \<open>DownloadURL\<close> that calls the signer, the download and its
  order were found, the caller has access, the order is paid and the count query
  answered a count of at most 50; the operations before the call are the two lookups and
  the count query. A run that fails earlier ends without the call.
\<close>

theorem signer_after_checks:
  assumes "SignCall \<in> set (calls (DownloadURL e r s))"
  shows "\<exists>d ord n.
           first_download e s (req_download_id r) = Found d
         \<and> first_order e s (download_OrderID d) = Found ord
         \<and> hasOrderAccess r ord
         \<and> order_PaymentState ord = PaidState
         \<and> access_count e s (order_ID ord) = Some n \<and> n \<le> maxIPsPerDay
         \<and> takeWhile (\<lambda>c. c \<noteq> SignCall) (calls (DownloadURL e r s))
             = [QueryDownload, QueryOrder, QueryIPCount]"
  using assms
  by (auto simp: DownloadURL_def fail_def split: query_result.splits option.splits if_splits)

theorem signer_after_checks_witness:
  "SignCall \<in> set (calls (DownloadURL calm (caller ''alice'' ''D1'') shop))
   \<and> (\<exists>d ord n.
           first_download calm shop (req_download_id (caller ''alice'' ''D1'')) = Found d
         \<and> first_order calm shop (download_OrderID d) = Found ord
         \<and> hasOrderAccess (caller ''alice'' ''D1'') ord
         \<and> order_PaymentState ord = PaidState
         \<and> access_count calm shop (order_ID ord) = Some n \<and> n \<le> maxIPsPerDay
         \<and> takeWhile (\<lambda>c. c \<noteq> SignCall) (calls (DownloadURL calm (caller ''alice'' ''D1'') shop))
             = [QueryDownload, QueryOrder, QueryIPCount])"
proof -
  have h: "SignCall \<in> set (calls (DownloadURL calm (caller ''alice'' ''D1'') shop))"
    by (simp add: DownloadURL_def fail_def first_download_def first_order_def
          hasOrderAccess_def access_count_eq count_distinct_ip_def SignURL_def
          PaidState_def maxIPsPerDay_def shop_defs)
  from signer_after_checks [OF h] h show ?thesis by simp
qed

section \<open>The audit record\<close>

lemma find_increment_download_count:
  "find (\<lambda>d. download_ID d = i) (increment_download_count j ds) =
     map_option (\<lambda>d. if download_ID d = j
                      then d\<lparr>download_DownloadCount := download_DownloadCount d + 1\<rparr>
                      else d)
                (find (\<lambda>d. download_ID d = i) ds)"
  by (induction ds) (auto simp: increment_download_count_def)

lemma find_download_ID:
  "find (\<lambda>d. download_ID d = i) ds = Some d \<Longrightarrow> download_ID d = i"
  by (induction ds) (auto split: if_splits)

lemma no_download_events_count:
  assumes "\<forall>ev\<in>set led. event_OrderID ev = oid \<longrightarrow> ''download'' \<notin> set (event_Changes ev)"
  shows "count_distinct_ip (s\<lparr>events := led\<rparr>) oid since = 0"
proof -
  have "filter (download_event oid since) led = []"
    using assms by (auto simp: filter_empty_conv download_event_def)
  then show ?thesis by (simp add: count_distinct_ip_def)
qed

text \<open>
  Claim C1 is what the specification asks for; lines 70 to 79 do not do it. The results
  of \<open>Commit\<close> and of the two writes are discarded, so a transaction that does not commit
  leaves the store as it was (here: count 0, empty ledger) and the caller still receives
  the signed download as a success, not an internal error.
\<close>

theorem commit_failure_returns_success:
  "response (DownloadURL (calm\<lparr>commit_ok := False\<rparr>) (caller ''alice'' ''D1'') shop) =
     Inr (D1\<lparr>download_Signed := Some (''https://cdn/book.pdf?sig=1'', clock + Hour)\<rparr>)
   \<and> store_after (DownloadURL (calm\<lparr>commit_ok := False\<rparr>) (caller ''alice'' ''D1'') shop) = shop
   \<and> calls (DownloadURL (calm\<lparr>commit_ok := False\<rparr>) (caller ''alice'' ''D1'') shop) =
       [QueryDownload, QueryOrder, QueryIPCount, SignCall, TxBegin, TxUpdate, TxLogEvent, TxCommit]"
  by (simp add: DownloadURL_def fail_def first_download_def first_order_def
        hasOrderAccess_def access_count_eq count_distinct_ip_def SignURL_def
        record_access_def PaidState_def maxIPsPerDay_def shop_defs)

text \<open>
  Claim C8. The download and its paid order are found, the caller is the owner of the
  order (or an administrator), the ledger holds no \<open>download\<close> entry of the order, the
  download's count is 0, and the count query, the signer and the transaction succeed.
  Then \<open>DownloadURL\<close> returns the download carrying the signed URL, the stored
  \<open>download_count\<close> of the download is 1, and the ledger has gained exactly one entry:
  for the order, of kind \<open>updated\<close>, tagged \<open>download\<close>, with the caller's address and
  the caller's subject, which is empty for an anonymous caller.
\<close>

theorem first_access_recorded:
  assumes "first_download e s (req_download_id r) = Found d"
    and "first_order e s (download_OrderID d) = Found ord"
    and "order_PaymentState ord = PaidState"
    and "(\<exists>c. req_claims r = Some c \<and> Subject c = order_UserID ord) \<or> req_is_admin r"
    and "\<forall>ev\<in>set (events s).
           event_OrderID ev = order_ID ord \<longrightarrow> ''download'' \<notin> set (event_Changes ev)"
    and "download_DownloadCount d = 0"
    and "\<not> count_query_error e" and "\<not> count_scan_error e"
    and "signer e (download_Asset d) = Some su"
    and "commit_ok e"
  shows "response (DownloadURL e r s) = Inr (d\<lparr>download_Signed := Some su\<rparr>)
       \<and> first_download e (store_after (DownloadURL e r s)) (req_download_id r)
           = Found (d\<lparr>download_DownloadCount := 1\<rparr>)
       \<and> events (store_after (DownloadURL e r s)) =
           events s @ [\<lparr>event_IP = req_RemoteAddr r,
                        event_UserID = (case req_claims r of None \<Rightarrow> [] | Some c \<Rightarrow> Subject c),
                        event_OrderID = order_ID ord, event_Type = EventUpdated,
                        event_Changes = [''download''], event_CreatedAt = now e\<rparr>]
       \<and> orders (store_after (DownloadURL e r s)) = orders s"
proof -
  from assms(4) have access: "hasOrderAccess r ord"
    by (auto simp: hasOrderAccess_def)
  from assms(5) have "count_distinct_ip (s\<lparr>events := events s\<rparr>) (order_ID ord)
                        (now e - 24 * Hour) = 0"
    by (rule no_download_events_count)
  with assms(7,8) have count: "access_count e s (order_ID ord) = Some 0"
    by (simp add: access_count_eq)
  from assms(9) have signed: "SignURL e d = Some (d\<lparr>download_Signed := Some su\<rparr>)"
    by (simp add: SignURL_def)
  from assms(1) have ident: "download_ID d = req_download_id r"
    and found: "find (\<lambda>x. download_ID x = req_download_id r) (downloads s) = Some d"
    and ok: "\<not> download_query_error e"
    by (auto simp: first_download_def dest: find_download_ID split: if_splits option.splits)
  have run: "DownloadURL e r s =
               \<lparr>response = Inr (d\<lparr>download_Signed := Some su\<rparr>),
                store_after = record_access e r s (d\<lparr>download_Signed := Some su\<rparr>) ord,
                calls = [QueryDownload, QueryOrder, QueryIPCount, SignCall,
                         TxBegin, TxUpdate, TxLogEvent, TxCommit]\<rparr>"
    using assms(1,2,3) access count signed
    by (simp add: DownloadURL_def maxIPsPerDay_def)
  have stored: "first_download e (record_access e r s (d\<lparr>download_Signed := Some su\<rparr>) ord)
                  (req_download_id r) = Found (d\<lparr>download_DownloadCount := 1\<rparr>)"
    using assms(6,10) ident found ok
    by (simp add: first_download_def record_access_def find_increment_download_count)
  have ledger: "events (record_access e r s (d\<lparr>download_Signed := Some su\<rparr>) ord) =
           events s @ [\<lparr>event_IP = req_RemoteAddr r,
                        event_UserID = (case req_claims r of None \<Rightarrow> [] | Some c \<Rightarrow> Subject c),
                        event_OrderID = order_ID ord, event_Type = EventUpdated,
                        event_Changes = [''download''], event_CreatedAt = now e\<rparr>]"
    using assms(10) by (simp add: record_access_def LogEvent_def)
  have "orders (record_access e r s (d\<lparr>download_Signed := Some su\<rparr>) ord) = orders s"
    by (simp add: record_access_def)
  with run stored ledger show ?thesis by simp
qed

theorem first_access_recorded_witness:
  "events shop = []
   \<and> response (DownloadURL calm (caller ''alice'' ''D1'') shop) =
       Inr (D1\<lparr>download_Signed := Some (''https://cdn/book.pdf?sig=1'', clock + Hour)\<rparr>)
   \<and> first_download calm (store_after (DownloadURL calm (caller ''alice'' ''D1'') shop)) ''D1''
       = Found (D1\<lparr>download_DownloadCount := 1\<rparr>)
   \<and> events (store_after (DownloadURL calm (caller ''alice'' ''D1'') shop)) =
       [\<lparr>event_IP = ''203.0.113.7'', event_UserID = ''alice'', event_OrderID = ''O1'',
         event_Type = ''updated'', event_Changes = [''download''], event_CreatedAt = clock\<rparr>]
   \<and> events (store_after (DownloadURL calm ((anonymous ''D1'')\<lparr>req_is_admin := True\<rparr>) shop)) =
       [\<lparr>event_IP = ''203.0.113.7'', event_UserID = [], event_OrderID = ''O1'',
         event_Type = ''updated'', event_Changes = [''download''], event_CreatedAt = clock\<rparr>]"
proof -
  have h1: "first_download calm shop (req_download_id (caller ''alice'' ''D1'')) = Found D1"
    and a1: "first_download calm shop
               (req_download_id ((anonymous ''D1'')\<lparr>req_is_admin := True\<rparr>)) = Found D1"
    by (simp_all add: caller_def anonymous_def first_download_shop)
  have h2: "first_order calm shop (download_OrderID D1) = Found O1"
    by (simp add: D1_def first_order_shop)
  have h3: "order_PaymentState O1 = PaidState"
    by (simp add: O1_def PaidState_def)
  have h4: "(\<exists>c. req_claims (caller ''alice'' ''D1'') = Some c \<and> Subject c = order_UserID O1)
            \<or> req_is_admin (caller ''alice'' ''D1'')"
    and a4: "(\<exists>c. req_claims ((anonymous ''D1'')\<lparr>req_is_admin := True\<rparr>) = Some c
                  \<and> Subject c = order_UserID O1)
            \<or> req_is_admin ((anonymous ''D1'')\<lparr>req_is_admin := True\<rparr>)"
    by (simp_all add: caller_def O1_def)
  have h5: "\<forall>ev\<in>set (events shop).
              event_OrderID ev = order_ID O1 \<longrightarrow> ''download'' \<notin> set (event_Changes ev)"
    by (simp add: shop_def)
  have h6: "download_DownloadCount D1 = 0"
    by (simp add: D1_def)
  have h7: "\<not> count_query_error calm" and h8: "\<not> count_scan_error calm"
    and h10: "commit_ok calm"
    by (simp_all add: calm_def)
  have h9: "signer calm (download_Asset D1) = Some (''https://cdn/book.pdf?sig=1'', clock + Hour)"
    by (simp add: calm_def D1_def)
  have e0: "events shop = []"
    by (simp add: shop_def)
  from first_access_recorded [OF h1 h2 h3 h4 h5 h6 h7 h8 h9 h10]
    first_access_recorded [OF a1 h2 h3 a4 h5 h6 h7 h8 h9 h10] e0
  show ?thesis
    by (simp add: caller_def anonymous_def O1_def EventUpdated_def calm_def)
qed

section \<open>Listing\<close>

lemma paginate_negative:
  "req_offset r < 0 \<or> req_limit r < 0 \<Longrightarrow> paginate e r = None"
  by (auto simp: paginate_def)

lemma list_page_negative:
  assumes "req_offset r < 0 \<or> req_limit r < 0"
  shows "list_page e r s order_opt cs =
           (if order_opt = None \<and> req_claims r = None then fail nilPointerPanic s cs
            else fail (badRequestError ''Bad Pagination Parameters'') s cs)"
  using paginate_negative [OF assms, of e]
  by (simp add: list_page_def split: option.splits)

text \<open>
  Claim C9, as the specification words it, fails when an order identity is given: the
  order is looked up (lines 90 to 96) before the pagination parameters are read (line
  122). With offset \<open>-1\<close> and an order that does not exist the failure is NotFound, not
  BadRequest; with the caller's own paid order it is BadRequest, after a query.
\<close>

theorem bad_pagination_counterexample:
  "req_offset ((caller ''alice'' [])\<lparr>req_order_id := ''O9'', req_offset := - 1\<rparr>) < 0
   \<and> response (DownloadList calm
         ((caller ''alice'' [])\<lparr>req_order_id := ''O9'', req_offset := - 1\<rparr>) shop)
       = Inl (notFoundError ''Download order not found'')
   \<and> calls (DownloadList calm
         ((caller ''alice'' [])\<lparr>req_order_id := ''O9'', req_offset := - 1\<rparr>) shop)
       = [QueryOrder]
   \<and> response (DownloadList calm
         ((caller ''alice'' [])\<lparr>req_order_id := ''O1'', req_offset := - 1\<rparr>) shop)
       = Inl (badRequestError ''Bad Pagination Parameters'')
   \<and> calls (DownloadList calm
         ((caller ''alice'' [])\<lparr>req_order_id := ''O1'', req_offset := - 1\<rparr>) shop)
       = [QueryOrder]"
  by (simp add: DownloadList_def list_page_def paginate_def fail_def first_order_def
        hasOrderAccess_def PaidState_def shop_defs)

text \<open>
  Claim C9, amended. A call of \<open>DownloadList\<close> with a negative offset or a negative limit
  returns no list, never issues the listing query and leaves the store as it was.
  Without an order identity and with an identified caller it fails with BadRequest and
  no store access at all. With an order identity the order is looked up first; when it
  is found, accessible to the caller and paid, the call fails with BadRequest and that
  lookup is its only store access.
\<close>

theorem bad_pagination_rejected:
  assumes "req_offset r < 0 \<or> req_limit r < 0"
  shows "(req_order_id r = [] \<and> req_claims r = Some c \<longrightarrow>
            response (DownloadList e r s) = Inl (badRequestError ''Bad Pagination Parameters'')
            \<and> calls (DownloadList e r s) = [])
       \<and> (req_order_id r \<noteq> [] \<and> first_order e s (req_order_id r) = Found ord
            \<and> hasOrderAccess r ord \<and> order_PaymentState ord = PaidState \<longrightarrow>
            response (DownloadList e r s) = Inl (badRequestError ''Bad Pagination Parameters'')
            \<and> calls (DownloadList e r s) = [QueryOrder])
       \<and> (\<exists>err. response (DownloadList e r s) = Inl err)
       \<and> QueryDownloads \<notin> set (calls (DownloadList e r s))
       \<and> store_after (DownloadList e r s) = s"
  by (auto simp: DownloadList_def list_page_negative [OF assms] fail_def
        split: query_result.splits)

theorem bad_pagination_rejected_witness:
  "req_offset ((caller ''alice'' [])\<lparr>req_offset := - 1\<rparr>) < 0
   \<and> req_order_id ((caller ''alice'' [])\<lparr>req_offset := - 1\<rparr>) = []
   \<and> req_claims ((caller ''alice'' [])\<lparr>req_offset := - 1\<rparr>) = Some \<lparr>Subject = ''alice''\<rparr>
   \<and> response (DownloadList calm ((caller ''alice'' [])\<lparr>req_offset := - 1\<rparr>) shop)
       = Inl (badRequestError ''Bad Pagination Parameters'')
   \<and> calls (DownloadList calm ((caller ''alice'' [])\<lparr>req_offset := - 1\<rparr>) shop) = []
   \<and> req_limit ((caller ''alice'' [])\<lparr>req_order_id := ''O1'', req_limit := - 5\<rparr>) < 0
   \<and> first_order calm shop
         (req_order_id ((caller ''alice'' [])\<lparr>req_order_id := ''O1'', req_limit := - 5\<rparr>))
       = Found O1
   \<and> response (DownloadList calm
         ((caller ''alice'' [])\<lparr>req_order_id := ''O1'', req_limit := - 5\<rparr>) shop)
       = Inl (badRequestError ''Bad Pagination Parameters'')
   \<and> calls (DownloadList calm
         ((caller ''alice'' [])\<lparr>req_order_id := ''O1'', req_limit := - 5\<rparr>) shop)
       = [QueryOrder]
   \<and> store_after (DownloadList calm
         ((caller ''alice'' [])\<lparr>req_order_id := ''O1'', req_limit := - 5\<rparr>) shop)
       = shop"
proof -
  let ?a = "(caller ''alice'' [])\<lparr>req_offset := - 1\<rparr>"
  let ?b = "(caller ''alice'' [])\<lparr>req_order_id := ''O1'', req_limit := - 5\<rparr>"
  have a1: "req_offset ?a < 0 \<or> req_limit ?a < 0"
    and a2: "req_order_id ?a = []" and a3: "req_claims ?a = Some \<lparr>Subject = ''alice''\<rparr>"
    by (simp_all add: caller_def)
  have b1: "req_offset ?b < 0 \<or> req_limit ?b < 0"
    and b2: "req_order_id ?b \<noteq> []"
    by (simp_all add: caller_def)
  have b3: "first_order calm shop (req_order_id ?b) = Found O1"
    by (simp add: first_order_shop)
  have b4: "hasOrderAccess ?b O1"
    by (simp add: hasOrderAccess_def caller_def O1_def)
  have b5: "order_PaymentState O1 = PaidState"
    by (simp add: O1_def PaidState_def)
  from bad_pagination_rejected [OF a1, of "\<lparr>Subject = ''alice''\<rparr>" calm shop O1] a2 a3
  have ra: "response (DownloadList calm ?a shop)
              = Inl (badRequestError ''Bad Pagination Parameters'')
            \<and> calls (DownloadList calm ?a shop) = []"
    by simp
  from bad_pagination_rejected [OF b1, of "\<lparr>Subject = ''alice''\<rparr>" calm shop O1] b2 b3 b4 b5
  have rb: "response (DownloadList calm ?b shop)
              = Inl (badRequestError ''Bad Pagination Parameters'')
            \<and> calls (DownloadList calm ?b shop) = [QueryOrder]
            \<and> store_after (DownloadList calm ?b shop) = shop"
    by simp
  have "req_offset ?a < 0" and "req_limit ?b < 0"
    by (simp_all add: caller_def)
  with ra rb a2 a3 b3 show ?thesis by simp
qed

text \<open>
  Claim C10. Without an order identity, \<open>DownloadList\<close> reads \<open>claims.Subject\<close> whatever the
  caller: the run ends in the nil dereference exactly when the caller is anonymous,
  before any store access; for an identified caller with valid pagination parameters the
  list is the page of the downloads of the paid orders whose user is that subject.
\<close>

theorem orderless_list_dereferences_claims:
  assumes "req_order_id r = []"
  shows "(response (DownloadList e r s) = Inl nilPointerPanic \<longleftrightarrow> req_claims r = None)
       \<and> (req_claims r = None \<longrightarrow>
            calls (DownloadList e r s) = [] \<and> store_after (DownloadList e r s) = s)
       \<and> (req_claims r = Some c \<and> paginate e r = Some (off, lim) \<and> \<not> list_query_error e \<longrightarrow>
            response (DownloadList e r s) =
              Inr (take (nat lim) (drop (nat off)
                     (joined_downloads s (\<lambda>row. order_UserID row = Subject c)))))"
  using assms
  by (auto simp: DownloadList_def list_page_def fail_def split: option.splits)

theorem orderless_list_dereferences_claims_witness:
  "req_order_id (anonymous []) = []
   \<and> req_claims (anonymous []) = None
   \<and> response (DownloadList calm (anonymous []) shop) = Inl nilPointerPanic
   \<and> calls (DownloadList calm (anonymous []) shop) = []
   \<and> store_after (DownloadList calm (anonymous []) shop) = shop
   \<and> req_claims (caller ''alice'' []) = Some \<lparr>Subject = ''alice''\<rparr>
   \<and> paginate calm (caller ''alice'' []) = Some (0, 10)
   \<and> response (DownloadList calm (caller ''alice'' []) shop) = Inr [D1]"
proof -
  have a1: "req_order_id (anonymous []) = []" and a2: "req_claims (anonymous []) = None"
    by (simp_all add: anonymous_def)
  have b1: "req_order_id (caller ''alice'' []) = []"
    and b2: "req_claims (caller ''alice'' []) = Some \<lparr>Subject = ''alice''\<rparr>"
    by (simp_all add: caller_def)
  have b3: "paginate calm (caller ''alice'' []) = Some (0, 10)"
    by (simp add: paginate_def caller_def calm_def)
  have b4: "\<not> list_query_error calm"
    by (simp add: calm_def)
  have page: "take (nat 10) (drop (nat 0)
                (joined_downloads shop (\<lambda>row. order_UserID row = Subject \<lparr>Subject = ''alice''\<rparr>)))
              = [D1]"
    by (simp add: joined_downloads_def shop_def O1_def O2_def D1_def D2_def)
  from orderless_list_dereferences_claims [OF a1, of calm shop "\<lparr>Subject = ''alice''\<rparr>" 0 10] a2
  have ra: "response (DownloadList calm (anonymous []) shop) = Inl nilPointerPanic
            \<and> calls (DownloadList calm (anonymous []) shop) = []
            \<and> store_after (DownloadList calm (anonymous []) shop) = shop"
    by simp
  from orderless_list_dereferences_claims [OF b1, of calm shop "\<lparr>Subject = ''alice''\<rparr>" 0 10]
    b2 b3 b4 page
  have rb: "response (DownloadList calm (caller ''alice'' []) shop) = Inr [D1]"
    by simp
  from ra rb a1 a2 b2 b3 show ?thesis by simp
qed

end
